theory Spec2Isabelle
  imports Main
begin

section \<open>Spark: the chat client of \<^verbatim>\<open>ai.py\<close>\<close>

text \<open>
  A shallow embedding of the class \<^verbatim>\<open>GeminiApp\<close> of \<^verbatim>\<open>ai.py\<close>: the fields of
  the object and the state of the widgets it reads are one record, every method is a
  function from that record to the updated record, and a Python exception is a value.
  The collaborators the class calls (the generative endpoint, the file system, the
  clock, the media player) are explicit: their answers are arguments, their effects are
  fields.
\<close>

subsection \<open>Python values\<close>

text \<open>
  Exceptions, by class, each with the text \<^verbatim>\<open>str(e)\<close> gives. \<open>EndpointError\<close> is
  any subclass of \<^verbatim>\<open>Exception\<close> raised inside the client library.
\<close>

datatype exn =
    OSError string
  | JSONDecodeError string
  | KeyError string
  | ValueError string
  | TypeError string
  | AttributeError string
  | UnicodeEncodeError string
  | OverflowError string
  | EndpointError string

fun str_exn :: "exn \<Rightarrow> string" where
  "str_exn (OSError m) = m"
| "str_exn (JSONDecodeError m) = m"
| "str_exn (KeyError m) = m"
| "str_exn (ValueError m) = m"
| "str_exn (TypeError m) = m"
| "str_exn (AttributeError m) = m"
| "str_exn (UnicodeEncodeError m) = m"
| "str_exn (OverflowError m) = m"
| "str_exn (EndpointError m) = m"

text \<open>
  \<^verbatim>\<open>str.strip()\<close>: leading and trailing whitespace removed. A \<open>char\<close> is a code
  point below 256; the whitespace of Python among them is 9 to 13, 28 to 32, 133 and 160.
\<close>

definition isspace :: "char \<Rightarrow> bool" where
  "isspace c = ((of_char c :: nat) \<in> {9, 10, 11, 12, 13, 28, 29, 30, 31, 32, 133, 160})"

definition strip :: "string \<Rightarrow> string" where
  "strip s = rev (dropWhile isspace (rev (dropWhile isspace s)))"

text \<open>The values \<^verbatim>\<open>json.load\<close> returns and \<^verbatim>\<open>json.dump\<close> accepts (integers only).\<close>

datatype json =
    JNull
  | JBool bool
  | JNum int
  | JStr string
  | JArr "json list"
  | JObj "(string \<times> json) list"

text \<open>\<^verbatim>\<open>d.get(key, default)\<close> on a parsed object.\<close>

definition dict_get :: "(string \<times> 'v) list \<Rightarrow> string \<Rightarrow> 'v \<Rightarrow> 'v" where
  "dict_get d k dflt = (case map_of d k of None \<Rightarrow> dflt | Some v \<Rightarrow> v)"

text \<open>Truthiness of a parsed value, as \<^verbatim>\<open>x or 14\<close> tests it.\<close>

fun truthy :: "json \<Rightarrow> bool" where
  "truthy JNull = False"
| "truthy (JBool b) = b"
| "truthy (JNum n) = (n \<noteq> 0)"
| "truthy (JStr s) = (s \<noteq> [])"
| "truthy (JArr xs) = (xs \<noteq> [])"
| "truthy (JObj kvs) = (kvs \<noteq> [])"

subsection \<open>The clock\<close>

text \<open>
  A reading of \<^verbatim>\<open>QDateTime.currentDateTime()\<close>, and the two format strings the
  program passes to \<^verbatim>\<open>toString\<close>. Both \<^verbatim>\<open>hh\<close> and \<^verbatim>\<open>HH\<close> are the hour from 00
  to 23 when the format has no AM/PM marker; no format of the program shows the
  milliseconds.
\<close>

record datetime =
  year :: nat
  month :: nat
  day :: nat
  hour :: nat
  minute :: nat
  second :: nat
  msec :: nat


definition digit :: "nat \<Rightarrow> char" where
  "digit d = ''0123456789'' ! (d mod 10)"

definition pad2 :: "nat \<Rightarrow> string" where
  "pad2 n = [digit (n div 10), digit n]"

definition pad4 :: "nat \<Rightarrow> string" where
  "pad4 n = [digit (n div 1000), digit (n div 100), digit (n div 10), digit n]"

text \<open>\<^verbatim>\<open>toString("yyyy-MM-dd HH:mm:ss")\<close>\<close>

definition toString_dashed :: "datetime \<Rightarrow> string" where
  "toString_dashed t =
     pad4 (year t) @ ''-'' @ pad2 (month t) @ ''-'' @ pad2 (day t) @ '' '' @
     pad2 (hour t) @ '':'' @ pad2 (minute t) @ '':'' @ pad2 (second t)"

text \<open>\<^verbatim>\<open>toString("yyyyMMdd_hhmmss")\<close> and \<^verbatim>\<open>toString("yyyyMMdd_HHmmss")\<close>\<close>

definition toString_compact :: "datetime \<Rightarrow> string" where
  "toString_compact t =
     pad4 (year t) @ pad2 (month t) @ pad2 (day t) @ ''_'' @
     pad2 (hour t) @ pad2 (minute t) @ pad2 (second t)"

subsection \<open>The state\<close>

text \<open>What a file holds: text written with \<^verbatim>\<open>f.write\<close>, a document written with
  \<^verbatim>\<open>json.dump\<close> (which \<^verbatim>\<open>json.load\<close> reads back as the same value), or the
  bytes of an audio clip.\<close>

datatype content = Text string | Json json | Audio "nat list"

text \<open>
  How writing a file can fail: \<^verbatim>\<open>open(p, "w")\<close> raises and the file is as it was, or
  the file has been created or truncated and the write raises (an encoding error, a full
  disk), leaving behind whatever had been written by then.
\<close>

datatype fault = OpenFails exn | WriteFails exn content

text \<open>A conversation entry is a Python dict from strings to strings.\<close>

type_synonym exchange = "(string \<times> string) list"

text \<open>One \<^verbatim>\<open>display_message(sender, message, timestamp)\<close> shown in the chat widget,
  or a line put there with \<^verbatim>\<open>chat_display.append\<close>.\<close>

datatype chat_entry =
    Message string string string
  | Line string

text \<open>A background thread the program has started, with its argument.\<close>

datatype job =
    ProcessMessage string
  | GenerateAudio string
  | RecognizeSpeech

record app =
  api_key :: "string option"
  conversations :: "exchange list"
  current_model :: string
  is_audio_playing :: bool
  current_audio_path :: "string option"
  chat_display :: "chat_entry list"
  message_input :: string
  context_checkbox :: bool
  font_size_slider :: int
  font_size_slider_visible :: bool
  audio_controls_visible :: bool
  spinner_visible :: bool
  player_source :: "string option"
  player_playing :: bool
  threads :: "job list"
  requests :: "(string \<times> string) list"
  files :: "string \<rightharpoonup> content"
  write_fault :: "string \<Rightarrow> content \<Rightarrow> fault option"

text \<open>
  \<open>requests\<close> lists the calls \<^verbatim>\<open>generate_content\<close> has made to the endpoint, as
  (model, prompt). \<open>write_fault p c\<close> is the way writing \<open>c\<close> to the path \<open>p\<close> fails, if
  it does.
\<close>

definition available_models :: "string list" where
  "available_models = [''gemini-1.5-flash'', ''gemini-1.5-flash-8b'', ''gemini-1.5-pro'']"

definition default_model :: string where
  "default_model = ''gemini-1.5-flash''"

subsection \<open>The generative endpoint\<close>

text \<open>
  What \<^verbatim>\<open>model.generate_content(message)\<close> does: it raises, or returns an object
  with a \<^verbatim>\<open>text\<close> attribute, a list of objects, or anything else. Reading and
  stripping the text of an object gives a string or raises an exception with a message.
\<close>

datatype element = ElementText string | ElementRaises string

datatype response =
    HasText string
  | TextRaises string
  | ResponseList "element list"
  | OtherResponse

datatype endpoint_result = Returns response | Throws string

type_synonym endpoint = "string \<Rightarrow> string \<Rightarrow> endpoint_result"

text \<open>The body of the \<^verbatim>\<open>try\<close> of \<^verbatim>\<open>get_gemini_response\<close>.\<close>

definition generate_text :: "endpoint \<Rightarrow> string \<Rightarrow> string \<Rightarrow> exn + string" where
  "generate_text ep model message =
     (case ep model message of
        Throws m \<Rightarrow> Inl (EndpointError m)
      | Returns (HasText t) \<Rightarrow> Inr (strip t)
      | Returns (TextRaises m) \<Rightarrow> Inl (ValueError m)
      | Returns (ResponseList []) \<Rightarrow>
          Inr ''No valid response received from Gemini. Please try again.''
      | Returns (ResponseList (ElementText t # _)) \<Rightarrow> Inr (strip t)
      | Returns (ResponseList (ElementRaises m # _)) \<Rightarrow> Inl (AttributeError m)
      | Returns OtherResponse \<Rightarrow>
          Inr ''No valid response received from Gemini. Please try again.'')"

definition api_key_missing :: "app \<Rightarrow> bool" where
  "api_key_missing s = (api_key s = None \<or> api_key s = Some [])"

definition get_gemini_response :: "endpoint \<Rightarrow> app \<Rightarrow> string \<Rightarrow> (exn + string) \<times> app" where
  "get_gemini_response ep s message =
     (if api_key_missing s then (Inr ''API key is missing. Please set it first.'', s)
      else
        let s' = s\<lparr>requests := requests s @ [(current_model s, message)]\<rparr> in
        (case generate_text ep (current_model s) message of
           Inr t \<Rightarrow> (Inr t, s')
         | Inl e \<Rightarrow> (Inr (''Error while fetching response: '' @ str_exn e), s')))"

subsection \<open>Files\<close>

text \<open>
  \<^verbatim>\<open>with open(p, "w") as f\<close> followed by the write: the file is replaced; or the
  open raises and nothing is written; or the write raises after the file was truncated,
  and the file holds what is left. The empty path cannot be opened. Directories are not
  modelled: a path is a key.
\<close>

definition write_file :: "app \<Rightarrow> string \<Rightarrow> content \<Rightarrow> (exn + unit) \<times> app" where
  "write_file s p c =
     (if p = [] then (Inl (OSError ''[Errno 2] No such file or directory''), s)
      else case write_fault s p c of
        Some (OpenFails e) \<Rightarrow> (Inl e, s)
      | Some (WriteFails e left) \<Rightarrow> (Inl e, s\<lparr>files := (files s)(p \<mapsto> left)\<rparr>)
      | None \<Rightarrow> (Inr (), s\<lparr>files := (files s)(p \<mapsto> c)\<rparr>))"

definition path_exists :: "(string \<rightharpoonup> content) \<Rightarrow> string \<Rightarrow> bool" where
  "path_exists fs p = (fs p \<noteq> None)"

text \<open>\<^verbatim>\<open>json.load\<close> of an open file; a file that is not a document does not parse.\<close>

definition json_load :: "(string \<rightharpoonup> content) \<Rightarrow> string \<Rightarrow> exn + json" where
  "json_load fs p =
     (case fs p of
        None \<Rightarrow> Inl (OSError ''[Errno 2] No such file or directory'')
      | Some (Json v) \<Rightarrow> Inr v
      | Some _ \<Rightarrow> Inl (JSONDecodeError ''Expecting value''))"

text \<open>\<^verbatim>\<open>f.read()\<close> of a text file; the model reads as text only what was written
  as text.\<close>

definition read_text :: "(string \<rightharpoonup> content) \<Rightarrow> string \<Rightarrow> exn + string" where
  "read_text fs p =
     (case fs p of
        None \<Rightarrow> Inl (OSError ''[Errno 2] No such file or directory'')
      | Some (Text t) \<Rightarrow> Inr t
      | Some _ \<Rightarrow> Inl (ValueError ''not a text file''))"

subsection \<open>The chat widget\<close>

text \<open>
  \<^verbatim>\<open>display_message\<close>: the entry is stamped with the clock when no timestamp (or an
  empty one) is passed. The HTML it builds is presentation and is left out; the entry
  keeps the sender, the message and the stamp.
\<close>

definition display_message :: "app \<Rightarrow> string \<Rightarrow> string \<Rightarrow> string option \<Rightarrow> datetime \<Rightarrow> app" where
  "display_message s sender message timestamp now =
     (let stamp = (case timestamp of
                     None \<Rightarrow> toString_dashed now
                   | Some t \<Rightarrow> if t = [] then toString_dashed now else t)
      in s\<lparr>chat_display := chat_display s @ [Message sender message stamp]\<rparr>)"

definition handle_response :: "app \<Rightarrow> string \<Rightarrow> datetime \<Rightarrow> app" where
  "handle_response s response now = display_message s ''Gemini'' response None now"

subsection \<open>The conversation log\<close>

definition exchange_json :: "exchange \<Rightarrow> json" where
  "exchange_json e = JObj (map (\<lambda>(k, v). (k, JStr v)) e)"

fun json_items :: "(string \<times> json) list \<Rightarrow> exchange option" where
  "json_items [] = Some []"
| "json_items ((k, JStr v) # kvs) = map_option ((#) (k, v)) (json_items kvs)"
| "json_items (_ # kvs) = None"

fun json_exchange :: "json \<Rightarrow> exchange option" where
  "json_exchange (JObj kvs) = json_items kvs"
| "json_exchange _ = None"

fun json_exchanges :: "json list \<Rightarrow> exchange list option" where
  "json_exchanges [] = Some []"
| "json_exchanges (j # js) =
     (case json_exchange j of
        None \<Rightarrow> None
      | Some e \<Rightarrow> map_option ((#) e) (json_exchanges js))"

text \<open>The documents the typed log can hold: an array of objects of strings.\<close>

fun json_conversations :: "json \<Rightarrow> exchange list option" where
  "json_conversations (JArr js) = json_exchanges js"
| "json_conversations _ = None"

definition conversations_file :: string where
  "conversations_file = ''conversations.json''"

definition save_conversation ::
  "app \<Rightarrow> string \<Rightarrow> string \<Rightarrow> datetime \<Rightarrow> (exn + unit) \<times> app" where
  "save_conversation s user_input response now =
     (let timestamp = toString_dashed now;
          s1 = s\<lparr>conversations := conversations s @
                  [[(''timestamp'', timestamp), (''input'', user_input), (''output'', response)]]\<rparr>
      in write_file s1 conversations_file (Json (JArr (map exchange_json (conversations s1)))))"

text \<open>The loop of \<^verbatim>\<open>load_conversations\<close>; \<^verbatim>\<open>conv['input']\<close> raises on a missing key.\<close>

fun replay :: "app \<Rightarrow> exchange list \<Rightarrow> datetime \<Rightarrow> (exn + unit) \<times> app" where
  "replay s [] now = (Inr (), s)"
| "replay s (conv # rest) now =
     (let timestamp = dict_get conv ''timestamp'' [] in
      case map_of conv ''input'' of
        None \<Rightarrow> (Inl (KeyError ''input''), s)
      | Some i \<Rightarrow>
          let s1 = display_message s ''Me'' i (Some timestamp) now in
          (case map_of conv ''output'' of
             None \<Rightarrow> (Inl (KeyError ''output''), s1)
           | Some out \<Rightarrow>
               replay (display_message s1 ''Gemini'' out (Some timestamp) now) rest now))"

text \<open>A document that is not an array of objects of strings is outside the typed log;
  the model raises there.\<close>

definition load_conversations :: "app \<Rightarrow> datetime \<Rightarrow> (exn + unit) \<times> app" where
  "load_conversations s now =
     (if path_exists (files s) conversations_file then
        (case json_load (files s) conversations_file of
           Inl e \<Rightarrow> (Inl e, s)
         | Inr doc \<Rightarrow>
             (case json_conversations doc of
                None \<Rightarrow> (Inl (TypeError ''not a list of conversations''), s)
              | Some cs \<Rightarrow> replay (s\<lparr>conversations := cs\<rparr>) cs now))
      else (Inr (), s))"

definition get_last_gemini_response :: "app \<Rightarrow> exn + string option" where
  "get_last_gemini_response s =
     (if conversations s \<noteq> [] then
        (case map_of (last (conversations s)) ''output'' of
           None \<Rightarrow> Inl (KeyError ''output'')
         | Some out \<Rightarrow> Inr (Some out))
      else Inr None)"

text \<open>
  \<^verbatim>\<open>delete_all_conversations\<close>; \<open>reply\<close> is the answer to the question box (true for
  Yes) and \<open>toPlainText\<close> the plain text the widget gives for its entries.
\<close>

definition archive_filename :: "datetime \<Rightarrow> string" where
  "archive_filename now = ''archived_conversation_'' @ toString_compact now @ ''.txt''"

definition delete_all_conversations ::
  "(chat_entry list \<Rightarrow> string) \<Rightarrow> app \<Rightarrow> bool \<Rightarrow> datetime \<Rightarrow> (exn + unit) \<times> app" where
  "delete_all_conversations toPlainText s reply now =
     (if reply then
        (case write_file s (archive_filename now) (Text (toPlainText (chat_display s))) of
           (Inl e, s1) \<Rightarrow> (Inl e, s1)
         | (Inr _, s1) \<Rightarrow>
             let s2 = s1\<lparr>conversations := []\<rparr> in
             (case write_file s2 conversations_file (Json (JArr (map exchange_json (conversations s2)))) of
                (Inl e, s3) \<Rightarrow> (Inl e, s3)
              | (Inr _, s3) \<Rightarrow>
                  (Inr (), display_message (s3\<lparr>chat_display := []\<rparr>) ''System''
                             ''All conversations deleted and archived.'' None now)))
      else (Inr (), s))"

subsection \<open>Submitting a message\<close>

text \<open>
  \<^verbatim>\<open>send_message\<close> runs on the widget thread and starts one thread for
  \<^verbatim>\<open>process_message\<close> with the prompt it has built. \<open>toPlainText\<close> is the plain text
  of the chat widget.
\<close>

definition context_prefix :: "string \<Rightarrow> string" where
  "context_prefix previous_messages =
     ''Context for my prompt: '' @ previous_messages @ [CHR 0x0A, CHR 0x0A]"

definition send_message :: "(chat_entry list \<Rightarrow> string) \<Rightarrow> app \<Rightarrow> datetime \<Rightarrow> app" where
  "send_message toPlainText s now =
     (let message = strip (message_input s) in
      if message = [] then
        display_message s ''System'' ''Cannot send an empty message.'' None now
      else
        let context_message =
              (if context_checkbox s then
                 (let previous_messages = strip (toPlainText (chat_display s))
                  in context_prefix previous_messages @ message)
               else message);
            s1 = display_message s ''Me'' message None now;
            s2 = s1\<lparr>message_input := []\<rparr>
        in s2\<lparr>threads := threads s2 @ [ProcessMessage context_message]\<rparr>)"

text \<open>
  \<^verbatim>\<open>process_message\<close>, the body of that thread. What it posts to the widget thread
  (the spinner, the signal \<^verbatim>\<open>response_received\<close>) is applied in the order posted.
  The handler posts a call of \<^verbatim>\<open>display_message\<close> whose text reads the exception
  variable \<^verbatim>\<open>e\<close>; when the call runs, the \<^verbatim>\<open>except\<close> block has ended and unbound
  \<^verbatim>\<open>e\<close>, so the call raises \<^verbatim>\<open>NameError\<close> on the widget thread and shows
  nothing. The spinner then stays.
\<close>

definition process_message ::
  "endpoint \<Rightarrow> app \<Rightarrow> string \<Rightarrow> datetime \<Rightarrow> (exn + unit) \<times> app" where
  "process_message ep s message now =
     (let s1 = s\<lparr>spinner_visible := True\<rparr> in
      case get_gemini_response ep s1 message of
        (Inl e, s2) \<Rightarrow> (Inr (), s2)
      | (Inr response, s2) \<Rightarrow>
          let s3 = handle_response s2 response now in
          (case save_conversation s3 message response now of
             (Inl e, s4) \<Rightarrow> (Inr (), s4)
           | (Inr _, s4) \<Rightarrow> (Inr (), s4\<lparr>spinner_visible := False\<rparr>)))"

subsection \<open>Configuration\<close>

definition config_file :: string where
  "config_file = ''config.json''"

definition save_font_size :: "app \<Rightarrow> int \<Rightarrow> (exn + unit) \<times> app" where
  "save_font_size s v = write_file s [] (Json (JObj [(''font_size'', JNum v)]))"

definition load_font_size :: "(string \<rightharpoonup> content) \<Rightarrow> exn + json" where
  "load_font_size fs =
     (if path_exists fs config_file then
        (case json_load fs config_file of
           Inl e \<Rightarrow> Inl e
         | Inr (JObj config) \<Rightarrow> Inr (dict_get config ''font_size'' (JNum 14))
         | Inr _ \<Rightarrow> Inl (AttributeError ''object has no attribute 'get' ''))
      else Inr (JNum 14))"

text \<open>\<^verbatim>\<open>update_font_size\<close>, the only slot of the slider: it gives the text of the chat
  widget the new point size and stores nothing.\<close>

definition update_font_size :: "app \<Rightarrow> int \<Rightarrow> app" where
  "update_font_size s v = s"

definition save_model_selection :: "app \<Rightarrow> (exn + unit) \<times> app" where
  "save_model_selection s =
     write_file s config_file (Json (JObj [(''selected_model'', JStr (current_model s))]))"

text \<open>\<open>text\<close> is \<^verbatim>\<open>model_dropdown.currentText()\<close>.\<close>

definition update_selected_model :: "app \<Rightarrow> string \<Rightarrow> (exn + unit) \<times> app" where
  "update_selected_model s text = save_model_selection (s\<lparr>current_model := text\<rparr>)"

definition load_model_selection :: "(string \<rightharpoonup> content) \<Rightarrow> exn + json" where
  "load_model_selection fs =
     (if path_exists fs config_file then
        (case json_load fs config_file of
           Inl e \<Rightarrow> Inl e
         | Inr (JObj config) \<Rightarrow> Inr (dict_get config ''selected_model'' (JStr default_model))
         | Inr _ \<Rightarrow> Inl (AttributeError ''object has no attribute 'get' ''))
      else Inr (JStr default_model))"

definition ensure_config_files :: "app \<Rightarrow> (exn + unit) \<times> app" where
  "ensure_config_files s =
     (case (if \<not> path_exists (files s) config_file then
              write_file s config_file
                (Json (JObj [(''font_size'', JNum 14), (''selected_model'', JStr ''gemini-1.5-flash'')]))
            else (Inr (), s)) of
        (Inl e, s1) \<Rightarrow> (Inl e, s1)
      | (Inr _, s1) \<Rightarrow>
          if \<not> path_exists (files s1) ''api_key.txt'' then write_file s1 ''api_key.txt'' (Text [])
          else (Inr (), s1))"

subsection \<open>Start-up\<close>

text \<open>\<^verbatim>\<open>available_models.index(current_model)\<close> in \<^verbatim>\<open>setup_ui\<close>.\<close>

fun index_from :: "nat \<Rightarrow> string list \<Rightarrow> json \<Rightarrow> exn + nat" where
  "index_from i [] v = Inl (ValueError ''is not in list'')"
| "index_from i (m # ms) v = (if v = JStr m then Inr i else index_from (Suc i) ms v)"

definition model_index :: "json \<Rightarrow> exn + nat" where
  "model_index v = index_from 0 available_models v"

text \<open>\<^verbatim>\<open>font_size_slider.setValue\<close> on the range 10 to 26: an integer that fits a
  C int is clamped, a larger one overflows, a truth value counts as 0 or 1, anything else
  is a type error.\<close>

fun slider_value :: "json \<Rightarrow> exn + int" where
  "slider_value (JNum n) =
     (if - 2147483648 \<le> n \<and> n \<le> 2147483647 then Inr (max 10 (min 26 n))
      else Inl (OverflowError ''Python int too large to convert to C int''))"
| "slider_value (JBool b) = Inr 10"
| "slider_value _ = Inl (TypeError ''setValue: int expected'')"

definition welcome_line :: string where
  "welcome_line =
     ''Welcome to Spark AI Chat! Powered by Gemini. '' @ [CHR 0x0A] @
     ''According to Google's Terms of Use you must be at least 18 years old to use this service.''"

definition load_api_key :: "app \<Rightarrow> datetime \<Rightarrow> (exn + unit) \<times> app" where
  "load_api_key s now =
     (if path_exists (files s) ''api_key.txt'' then
        (case read_text (files s) ''api_key.txt'' of
           Inl e \<Rightarrow> (Inl e, s)
         | Inr t \<Rightarrow>
             let s1 = s\<lparr>api_key := Some (strip t)\<rparr> in
             if strip t \<noteq> [] then
               (Inr (), display_message s1 ''System'' ''API key loaded successfully.'' None now)
             else (Inr (), s1))
      else (Inr (), s))"

text \<open>
  \<^verbatim>\<open>GeminiApp.__init__\<close> with \<^verbatim>\<open>setup_ui\<close>, on the files found at start;
  \<open>online\<close> is the answer of \<^verbatim>\<open>check_internet\<close>. An exception leaves no object.
\<close>

definition init_app ::
  "(string \<rightharpoonup> content) \<Rightarrow> (string \<Rightarrow> content \<Rightarrow> fault option) \<Rightarrow> bool \<Rightarrow> datetime
     \<Rightarrow> exn + app" where
  "init_app fs faults online now =
     (case load_model_selection fs of
        Inl e \<Rightarrow> Inl e
      | Inr model \<Rightarrow>
     (case load_font_size fs of
        Inl e \<Rightarrow> Inl e
      | Inr loaded \<Rightarrow>
     (let size = (if truthy loaded then loaded else JNum 14) in
      case model_index model of
        Inl e \<Rightarrow> Inl e
      | Inr index \<Rightarrow>
     (case slider_value size of
        Inl e \<Rightarrow> Inl e
      | Inr v \<Rightarrow>
     (let s0 = \<lparr>api_key = None, conversations = [],
                current_model = available_models ! index,
                is_audio_playing = False, current_audio_path = None,
                chat_display = [Line welcome_line], message_input = [],
                context_checkbox = True, font_size_slider = v,
                font_size_slider_visible = True, audio_controls_visible = False,
                spinner_visible = False, player_source = None, player_playing = False,
                threads = [], requests = [], files = fs, write_fault = faults\<rparr>
      in case load_conversations s0 now of
        (Inl e, _) \<Rightarrow> Inl e
      | (Inr _, s1) \<Rightarrow>
     (case load_api_key (update_font_size s1 v) now of
        (Inl e, _) \<Rightarrow> Inl e
      | (Inr _, s2) \<Rightarrow>
          if \<not> online then
            Inr (display_message s2 ''System''
                   ''No internet connection. Please check your network.'' None now)
          else Inr s2))))))"

subsection \<open>Reading the last reply aloud\<close>

definition on_audio_finished :: "app \<Rightarrow> app" where
  "on_audio_finished s =
     s\<lparr>is_audio_playing := False, audio_controls_visible := False,
       font_size_slider_visible := True\<rparr>"

text \<open>\<^verbatim>\<open>AudioController.stop_audio\<close>: the player stops and \<^verbatim>\<open>audio_finished\<close>
  reaches its slot \<^verbatim>\<open>on_audio_finished\<close>.\<close>

definition stop_audio :: "app \<Rightarrow> app" where
  "stop_audio s = on_audio_finished (s\<lparr>player_playing := False\<rparr>)"



text \<open>
  \<^verbatim>\<open>read_last_response\<close> up to the start of the thread; \<^verbatim>\<open>not last_response\<close>
  holds of \<^verbatim>\<open>None\<close> and of the empty string.
\<close>

definition read_last_response :: "app \<Rightarrow> datetime \<Rightarrow> (exn + unit) \<times> app" where
  "read_last_response s now =
     (if is_audio_playing s then (Inr (), stop_audio s)
      else
        (case get_last_gemini_response s of
           Inl e \<Rightarrow> (Inl e, s)
         | Inr None \<Rightarrow> (Inr (), display_message s ''System'' ''No response to read.'' None now)
         | Inr (Some last_response) \<Rightarrow>
             if last_response = [] then
               (Inr (), display_message s ''System'' ''No response to read.'' None now)
             else
               (Inr (), s\<lparr>spinner_visible := True,
                          threads := threads s @ [GenerateAudio last_response]\<rparr>)))"



subsection \<open>Example runs\<close>

text \<open>Concrete clock readings, files, endpoints and states, used to run the program.\<close>

definition noon :: datetime where
  "noon = \<lparr>year = 2024, month = 5, day = 17, hour = 12, minute = 30, second = 45, msec = 120\<rparr>"


definition next_second :: datetime where
  "next_second = \<lparr>year = 2024, month = 5, day = 17, hour = 12, minute = 30, second = 46, msec = 5\<rparr>"

definition no_fault :: "string \<Rightarrow> content \<Rightarrow> fault option" where
  "no_fault p c = None"

definition log_locked :: "string \<Rightarrow> content \<Rightarrow> fault option" where
  "log_locked p c =
     (if p = ''conversations.json'' then Some (OpenFails (OSError ''[Errno 13] Permission denied''))
      else None)"

definition log_disk_full :: "string \<Rightarrow> content \<Rightarrow> fault option" where
  "log_disk_full p c =
     (if p = ''conversations.json'' then
        Some (WriteFails (OSError ''[Errno 28] No space left on device'') (Text []))
      else None)"

definition no_files :: "string \<rightharpoonup> content" where
  "no_files p = None"

definition first_run :: app where
  "first_run =
     \<lparr>api_key = None, conversations = [], current_model = ''gemini-1.5-flash'',
      is_audio_playing = False, current_audio_path = None,
      chat_display = [Line welcome_line], message_input = [],
      context_checkbox = True, font_size_slider = 14,
      font_size_slider_visible = True, audio_controls_visible = False,
      spinner_visible = False, player_source = None, player_playing = False,
      threads = [], requests = [], files = no_files, write_fault = no_fault\<rparr>"

definition with_key :: app where
  "with_key = first_run\<lparr>api_key := Some ''secret''\<rparr>"

definition greeting_endpoint :: endpoint where
  "greeting_endpoint model message = Returns (HasText ''Hi there'')"

definition refusing_endpoint :: endpoint where
  "refusing_endpoint model message = Throws ''connection refused''"



text \<open>A plain-text rendering of the chat widget, one line per entry.\<close>

fun entry_line :: "chat_entry \<Rightarrow> string" where
  "entry_line (Message sender message stamp) = stamp @ '' '' @ sender @ '': '' @ message @ [CHR 0x0A]"
| "entry_line (Line l) = l @ [CHR 0x0A]"

definition plain_lines :: "chat_entry list \<Rightarrow> string" where
  "plain_lines entries = concat (map entry_line entries)"

text \<open>A run of \<^verbatim>\<open>save_conversation\<close> calls, stopping at the first that raises, and
  the entry each call appends.\<close>

fun appends :: "app \<Rightarrow> (string \<times> string \<times> datetime) list \<Rightarrow> (exn + unit) \<times> app" where
  "appends s [] = (Inr (), s)"
| "appends s ((user_input, response, now) # rest) =
     (case save_conversation s user_input response now of
        (Inl e, s1) \<Rightarrow> (Inl e, s1)
      | (Inr _, s1) \<Rightarrow> appends s1 rest)"

definition appended :: "string \<times> string \<times> datetime \<Rightarrow> exchange" where
  "appended c = (case c of (user_input, response, now) \<Rightarrow>
     [(''timestamp'', toString_dashed now), (''input'', user_input), (''output'', response)])"

text \<open>The empty store: nothing in memory, and no log file or a log file holding \<^verbatim>\<open>[]\<close>.\<close>

definition empty_store :: "app \<Rightarrow> bool" where
  "empty_store s =
     (conversations s = [] \<and>
      (files s conversations_file = None \<or> files s conversations_file = Some (Json (JArr []))))"

text \<open>The log file holds what is in memory.\<close>

definition mirrored :: "app \<Rightarrow> bool" where
  "mirrored s =
     (files s conversations_file = Some (Json (JArr (map exchange_json (conversations s)))))"

definition has_input_output :: "exchange \<Rightarrow> bool" where
  "has_input_output c = (map_of c ''input'' \<noteq> None \<and> map_of c ''output'' \<noteq> None)"

definition two_calls :: "(string \<times> string \<times> datetime) list" where
  "two_calls = [(''Hello'', ''Hi there'', noon), (''Bye'', ''See you'', next_second)]"

text \<open>The state after one answered submission, and faults of the file system.\<close>

definition after_hello :: app where
  "after_hello = snd (process_message greeting_endpoint with_key ''Hello'' noon)"

definition archive_locked :: "string \<Rightarrow> content \<Rightarrow> fault option" where
  "archive_locked p c =
     (if p = ''conversations.json'' then None
      else Some (OpenFails (OSError ''[Errno 30] Read-only file system'')))"

definition archive_not_encodable :: "string \<Rightarrow> content \<Rightarrow> fault option" where
  "archive_not_encodable p c =
     (if p = ''conversations.json'' then None
      else Some (WriteFails (UnicodeEncodeError ''codec can't encode character'') (Text [])))"

text \<open>A configuration naming a model that is not offered, and one with both fields.\<close>

definition stale_config :: "string \<rightharpoonup> content" where
  "stale_config p =
     (if p = ''config.json'' then
        Some (Json (JObj [(''font_size'', JNum 14), (''selected_model'', JStr ''gemini-pro'')]))
      else None)"

definition saved_config :: "string \<rightharpoonup> content" where
  "saved_config p =
     (if p = ''config.json'' then
        Some (Json (JObj [(''font_size'', JNum 20), (''selected_model'', JStr ''gemini-1.5-flash'')]))
      else None)"

definition configured :: app where
  "configured = first_run\<lparr>font_size_slider := 20, files := saved_config\<rparr>"

text \<open>A state in which a clip is playing, and two clips a synthesizer may produce.\<close>

definition playing :: app where
  "playing = after_hello
     \<lparr>is_audio_playing := True, player_playing := True,
      player_source := Some ''audio/AI-response_20240517_123045.mp3'',
      audio_controls_visible := True, font_size_slider_visible := False\<rparr>"



section \<open>Properties\<close>

subsection \<open>Shared facts\<close>




subsection \<open>Generating a response\<close>



text \<open>
  C4, as the program has it: when the key is absent or empty, \<^verbatim>\<open>get_gemini_response\<close>
  returns the text "API key is missing. Please set it first." as its normal result,
  whatever the endpoint would do, and leaves the state as it was: no request is made.
\<close>

theorem missing_key_text_without_request:
  "api_key_missing s \<Longrightarrow>
   get_gemini_response ep s message = (Inr ''API key is missing. Please set it first.'', s)"
  by (simp add: get_gemini_response_def)

theorem missing_key_text_without_request_witness:
  "api_key_missing first_run \<and>
   get_gemini_response refusing_endpoint first_run ''Hello'' =
     (Inr ''API key is missing. Please set it first.'', first_run)"
proof -
  have a: "api_key_missing first_run"
    by (simp add: api_key_missing_def first_run_def)
  show ?thesis using a missing_key_text_without_request [OF a] by simp
qed

text \<open>C4 as stated asks for an error; on a first run without a key the call returns
  normally, with a text.\<close>

theorem missing_key_is_not_an_error:
  "fst (get_gemini_response refusing_endpoint first_run ''Hello'') =
     Inr ''API key is missing. Please set it first.''"
  by (simp add: get_gemini_response_def api_key_missing_def first_run_def)

subsection \<open>Processing a submission\<close>






subsection \<open>The conversation log on disk\<close>

lemma json_items_roundtrip: "json_items (map (\<lambda>(k, v). (k, JStr v)) e) = Some e"
  by (induction e) auto

lemma json_exchange_roundtrip: "json_exchange (exchange_json e) = Some e"
  by (simp add: exchange_json_def json_items_roundtrip)

lemma json_exchanges_roundtrip: "json_exchanges (map exchange_json cs) = Some cs"
  by (induction cs) (simp_all add: json_exchange_roundtrip)

lemma json_conversations_roundtrip:
  "json_conversations (JArr (map exchange_json cs)) = Some cs"
  by (simp add: json_exchanges_roundtrip)

lemma display_message_fields:
  "conversations (display_message s sender m t now) = conversations s"
  "files (display_message s sender m t now) = files s"
  by (simp_all add: display_message_def Let_def)

lemma replay_ok:
  "list_all has_input_output cs \<Longrightarrow>
   fst (replay s cs now) = Inr () \<and> conversations (snd (replay s cs now)) = conversations s
   \<and> files (snd (replay s cs now)) = files s"
proof (induction cs arbitrary: s)
  case Nil
  then show ?case by simp
next
  case (Cons c cs)
  then obtain i out where io: "map_of c ''input'' = Some i" "map_of c ''output'' = Some out"
    by (auto simp: has_input_output_def)
  from Cons.prems have rest: "list_all has_input_output cs" by simp
  show ?case
    using io Cons.IH [OF rest] by (simp add: Let_def display_message_fields)
qed

lemma appended_has_input_output: "has_input_output (appended c)"
  by (cases c) (simp add: appended_def has_input_output_def)

lemma save_conversation_ok:
  "save_conversation s i out now = (Inr (), s') \<Longrightarrow>
   conversations s' = conversations s @ [appended (i, out, now)] \<and> mirrored s'"
  by (auto simp: save_conversation_def write_file_def Let_def appended_def mirrored_def
        split: if_splits option.splits fault.splits)

lemma appends_ok:
  "appends s calls = (Inr (), s') \<Longrightarrow>
   conversations s' = conversations s @ map appended calls \<and>
   (calls = [] \<and> s' = s \<or> mirrored s')"
proof (induction calls arbitrary: s)
  case Nil
  then show ?case by simp
next
  case (Cons c calls)
  obtain i out now where c: "c = (i, out, now)" by (cases c) auto
  obtain r s1 where sv: "save_conversation s i out now = (r, s1)"
    by (cases "save_conversation s i out now") auto
  with Cons.prems c have r: "r = Inr ()" and rest: "appends s1 calls = (Inr (), s')"
    by (auto split: sum.splits)
  from save_conversation_ok sv r
  have s1: "conversations s1 = conversations s @ [appended c]" "mirrored s1"
    using c by auto
  from Cons.IH [OF rest] s1 show ?case by auto
qed

lemma load_mirrored:
  assumes "mirrored s'" "files r = files s'" "list_all has_input_output (conversations s')"
  shows "fst (load_conversations r now) = Inr () \<and>
         conversations (snd (load_conversations r now)) = conversations s'"
  using assms replay_ok [of "conversations s'" "r\<lparr>conversations := conversations s'\<rparr>" now]
  by (simp add: load_conversations_def mirrored_def path_exists_def json_load_def
        json_exchanges_roundtrip)

lemma after_hello_eq:
  "after_hello = first_run
     \<lparr>api_key := Some ''secret'',
      conversations := [[(''timestamp'', ''2024-05-17 12:30:45''), (''input'', ''Hello''),
                         (''output'', ''Hi there'')]],
      chat_display := [Line welcome_line, Message ''Gemini'' ''Hi there'' ''2024-05-17 12:30:45''],
      requests := [(''gemini-1.5-flash'', ''Hello'')],
      files := no_files(''conversations.json'' \<mapsto>
        Json (JArr [JObj [(''timestamp'', JStr ''2024-05-17 12:30:45''), (''input'', JStr ''Hello''),
                          (''output'', JStr ''Hi there'')]]))\<rparr>"
  by (simp add: after_hello_def process_message_def get_gemini_response_def api_key_missing_def
        generate_text_def greeting_endpoint_def with_key_def first_run_def
        save_conversation_def write_file_def conversations_file_def no_fault_def
        handle_response_def display_message_def Let_def exchange_json_def
        toString_dashed_def noon_def pad4_def pad2_def digit_def strip_def isspace_def)

lemma archive_filename_facts:
  "archive_filename now \<noteq> []" "archive_filename now \<noteq> conversations_file"
  "conversations_file \<noteq> []" "conversations_file \<noteq> archive_filename now"
  by (simp_all add: archive_filename_def conversations_file_def)

lemma load_empty_log:
  "files r conversations_file = Some (Json (JArr [])) \<Longrightarrow>
   load_conversations r now = (Inr (), r\<lparr>conversations := []\<rparr>)"
  by (simp add: load_conversations_def path_exists_def json_load_def)

text \<open>
  C2: from an empty store, after any finite run of \<^verbatim>\<open>save_conversation\<close> calls that
  all succeed, \<^verbatim>\<open>load_conversations\<close> on a restarted program (an object with an empty
  log, on the files the run left) succeeds and loads exactly the entries appended, in
  order, each with the input and the output it was given.
\<close>

theorem load_returns_appended:
  assumes "empty_store s"
    and "appends s calls = (Inr (), s')"
    and "files r = files s'" and "conversations r = []"
  shows "fst (load_conversations r now) = Inr () \<and>
         conversations (snd (load_conversations r now)) = map appended calls \<and>
         conversations s' = map appended calls"
proof -
  from assms(1) have e: "conversations s = []" by (simp add: empty_store_def)
  from appends_ok [OF assms(2)] e
  have cs: "conversations s' = map appended calls"
    and m: "calls = [] \<and> s' = s \<or> mirrored s'" by auto
  have wf: "list_all has_input_output (conversations s')"
    by (simp add: cs list_all_iff appended_has_input_output)
  from m show ?thesis
  proof
    assume a: "calls = [] \<and> s' = s"
    from assms(1) a have "files s' conversations_file = None \<or> mirrored s'"
      by (auto simp: empty_store_def mirrored_def)
    then show ?thesis
    proof
      assume "files s' conversations_file = None"
      then show ?thesis using a assms(3,4) cs
        by (simp add: load_conversations_def path_exists_def)
    next
      assume "mirrored s'"
      from load_mirrored [OF this assms(3) wf] cs show ?thesis by simp
    qed
  next
    assume "mirrored s'"
    from load_mirrored [OF this assms(3) wf] cs show ?thesis by simp
  qed
qed

text \<open>Two appends on a first run, then a load on a new object.\<close>

lemma two_calls_run: "fst (appends first_run two_calls) = Inr ()"
  by (simp add: two_calls_def save_conversation_def write_file_def first_run_def
        no_fault_def conversations_file_def Let_def)

theorem load_returns_appended_witness:
  "empty_store first_run \<and>
   appends first_run two_calls = (Inr (), snd (appends first_run two_calls)) \<and>
   conversations (snd (load_conversations
      (first_run\<lparr>files := files (snd (appends first_run two_calls))\<rparr>) next_second)) =
     [[(''timestamp'', ''2024-05-17 12:30:45''), (''input'', ''Hello''), (''output'', ''Hi there'')],
      [(''timestamp'', ''2024-05-17 12:30:46''), (''input'', ''Bye''), (''output'', ''See you'')]]"
proof -
  have a: "empty_store first_run"
    by (simp add: empty_store_def first_run_def no_files_def)
  have b: "appends first_run two_calls = (Inr (), snd (appends first_run two_calls))"
    using two_calls_run by (cases "appends first_run two_calls") simp
  have c: "files (first_run\<lparr>files := files (snd (appends first_run two_calls))\<rparr>) =
           files (snd (appends first_run two_calls))" by simp
  have d: "conversations (first_run\<lparr>files := files (snd (appends first_run two_calls))\<rparr>) = []"
    by (simp add: first_run_def)
  have e: "map appended two_calls =
     [[(''timestamp'', ''2024-05-17 12:30:45''), (''input'', ''Hello''), (''output'', ''Hi there'')],
      [(''timestamp'', ''2024-05-17 12:30:46''), (''input'', ''Bye''), (''output'', ''See you'')]]"
    by (simp add: two_calls_def appended_def toString_dashed_def noon_def next_second_def
          pad4_def pad2_def digit_def)
  show ?thesis
    using load_returns_appended [OF a b c d, of next_second] a b e by simp
qed

subsection \<open>Deleting all conversations\<close>

text \<open>
  C3, as the program has it: when the user confirms and both writes succeed,
  \<^verbatim>\<open>delete_all_conversations\<close> leaves an archive file holding the plain text the chat
  widget showed before, an empty log in memory and the log file \<^verbatim>\<open>[]\<close>, so that a
  later load gives the empty log. Otherwise the call raises and what was done before
  the failing step stays: when the archive cannot be opened, nothing has changed; when
  writing the archive fails after it was opened, the archive holds what that write left
  and nothing else has changed; when the archive is written and the log file cannot be
  opened, the archive is in place, the log in memory is already empty and the log file
  is as it was; when writing the log file fails after it was opened, the log file holds
  what that write left. When the user declines, nothing changes.
\<close>

theorem delete_all_conversations_outcomes:
  assumes "delete_all_conversations toPlainText s True now = (result, s')"
  shows
  "(write_fault s (archive_filename now) (Text (toPlainText (chat_display s))) = None \<and>
    write_fault s conversations_file (Json (JArr [])) = None \<longrightarrow>
      result = Inr () \<and>
      files s' (archive_filename now) = Some (Text (toPlainText (chat_display s))) \<and>
      conversations s' = [] \<and>
      files s' conversations_file = Some (Json (JArr [])) \<and>
      (files r = files s' \<longrightarrow> load_conversations r later = (Inr (), r\<lparr>conversations := []\<rparr>))) \<and>
   (write_fault s (archive_filename now) (Text (toPlainText (chat_display s))) = Some (OpenFails e)
      \<longrightarrow> result = Inl e \<and> s' = s) \<and>
   (write_fault s (archive_filename now) (Text (toPlainText (chat_display s))) =
      Some (WriteFails e left)
      \<longrightarrow> result = Inl e \<and> s' = s\<lparr>files := (files s)(archive_filename now \<mapsto> left)\<rparr>) \<and>
   (write_fault s (archive_filename now) (Text (toPlainText (chat_display s))) = None \<and>
    write_fault s conversations_file (Json (JArr [])) = Some (OpenFails e) \<longrightarrow>
      result = Inl e \<and>
      files s' (archive_filename now) = Some (Text (toPlainText (chat_display s))) \<and>
      conversations s' = [] \<and>
      files s' conversations_file = files s conversations_file) \<and>
   (write_fault s (archive_filename now) (Text (toPlainText (chat_display s))) = None \<and>
    write_fault s conversations_file (Json (JArr [])) = Some (WriteFails e left) \<longrightarrow>
      result = Inl e \<and>
      files s' (archive_filename now) = Some (Text (toPlainText (chat_display s))) \<and>
      conversations s' = [] \<and>
      files s' conversations_file = Some left) \<and>
   delete_all_conversations toPlainText s False now = (Inr (), s)"
proof -
  let ?D = "delete_all_conversations toPlainText s True now"
  let ?A = "archive_filename now"
  let ?T = "Text (toPlainText (chat_display s))"
  note defs = delete_all_conversations_def write_file_def archive_filename_facts Let_def
  have rs: "result = fst ?D" "s' = snd ?D"
    using assms by simp_all
  have ok1: "write_fault s ?A ?T = None \<and> write_fault s conversations_file (Json (JArr [])) = None
      \<Longrightarrow> fst ?D = Inr ()"
    by (simp add: defs)
  have ok2: "write_fault s ?A ?T = None \<and> write_fault s conversations_file (Json (JArr [])) = None
      \<Longrightarrow> files (snd ?D) ?A = Some ?T"
    by (simp add: defs display_message_def)
  have ok3: "write_fault s ?A ?T = None \<and> write_fault s conversations_file (Json (JArr [])) = None
      \<Longrightarrow> conversations (snd ?D) = []"
    by (simp add: defs display_message_def)
  have ok4: "write_fault s ?A ?T = None \<and> write_fault s conversations_file (Json (JArr [])) = None
      \<Longrightarrow> files (snd ?D) conversations_file = Some (Json (JArr []))"
    by (simp add: defs display_message_def)
  have a: "write_fault s ?A ?T = Some (OpenFails e) \<Longrightarrow> ?D = (Inl e, s)"
    by (simp add: defs)
  have b: "write_fault s ?A ?T = Some (WriteFails e left)
      \<Longrightarrow> ?D = (Inl e, s\<lparr>files := (files s)(?A \<mapsto> left)\<rparr>)"
    by (simp add: defs)
  have c1: "write_fault s ?A ?T = None \<and>
      write_fault s conversations_file (Json (JArr [])) = Some (OpenFails e)
      \<Longrightarrow> ?D = (Inl e, s\<lparr>files := (files s)(?A \<mapsto> ?T), conversations := []\<rparr>)"
    by (simp add: defs)
  have d1: "write_fault s ?A ?T = None \<and>
      write_fault s conversations_file (Json (JArr [])) = Some (WriteFails e left)
      \<Longrightarrow> ?D = (Inl e, s\<lparr>files := (files s)(?A \<mapsto> ?T), conversations := [],
                             files := (files s)(?A \<mapsto> ?T, conversations_file \<mapsto> left)\<rparr>)"
    by (simp add: defs)
  have f: "delete_all_conversations toPlainText s False now = (Inr (), s)"
    by (simp add: delete_all_conversations_def)
  have l: "files s' conversations_file = Some (Json (JArr [])) \<Longrightarrow> files r = files s' \<Longrightarrow>
           load_conversations r later = (Inr (), r\<lparr>conversations := []\<rparr>)"
    using load_empty_log [of r later] by simp
  show ?thesis
  proof (intro conjI impI)
    assume h: "write_fault s ?A ?T = None \<and> write_fault s conversations_file (Json (JArr [])) = None"
    show "result = Inr ()" using ok1 [OF h] rs by simp
    show "files s' ?A = Some ?T" using ok2 [OF h] rs by simp
    show "conversations s' = []" using ok3 [OF h] rs by simp
    show "files s' conversations_file = Some (Json (JArr []))" using ok4 [OF h] rs by simp
    assume "files r = files s'"
    with ok4 [OF h] rs show "load_conversations r later = (Inr (), r\<lparr>conversations := []\<rparr>)"
      using l by simp
  next
    assume h: "write_fault s ?A ?T = Some (OpenFails e)"
    show "result = Inl e" using a [OF h] rs by simp
    show "s' = s" using a [OF h] rs by simp
  next
    assume h: "write_fault s ?A ?T = Some (WriteFails e left)"
    show "result = Inl e" using b [OF h] rs by simp
    show "s' = s\<lparr>files := (files s)(?A \<mapsto> left)\<rparr>" using b [OF h] rs by simp
  next
    assume h: "write_fault s ?A ?T = None \<and>
      write_fault s conversations_file (Json (JArr [])) = Some (OpenFails e)"
    show "result = Inl e" using c1 [OF h] rs by simp
    show "files s' ?A = Some ?T" using c1 [OF h] rs by simp
    show "conversations s' = []" using c1 [OF h] rs by simp
    show "files s' conversations_file = files s conversations_file"
      using c1 [OF h] rs archive_filename_facts(4) [of now] by simp
  next
    assume h: "write_fault s ?A ?T = None \<and>
      write_fault s conversations_file (Json (JArr [])) = Some (WriteFails e left)"
    show "result = Inl e" using d1 [OF h] rs by simp
    show "files s' ?A = Some ?T"
      using d1 [OF h] rs archive_filename_facts(2) [of now] by simp
    show "conversations s' = []" using d1 [OF h] rs by simp
    show "files s' conversations_file = Some left" using d1 [OF h] rs by simp
  next
    show "delete_all_conversations toPlainText s False now = (Inr (), s)" by (rule f)
  qed
qed

theorem delete_all_conversations_outcomes_witness:
  "fst (delete_all_conversations plain_lines after_hello True next_second) = Inr () \<and>
   files (snd (delete_all_conversations plain_lines after_hello True next_second))
       (archive_filename next_second) =
     Some (Text (plain_lines (chat_display after_hello))) \<and>
   conversations (snd (delete_all_conversations plain_lines after_hello True next_second)) = [] \<and>
   load_conversations
       (first_run\<lparr>files := files (snd (delete_all_conversations plain_lines after_hello True next_second))\<rparr>)
       next_second =
     (Inr (), first_run
        \<lparr>files := files (snd (delete_all_conversations plain_lines after_hello True next_second)),
         conversations := []\<rparr>) \<and>
   delete_all_conversations plain_lines (after_hello\<lparr>write_fault := archive_locked\<rparr>) True next_second =
     (Inl (OSError ''[Errno 30] Read-only file system''), after_hello\<lparr>write_fault := archive_locked\<rparr>) \<and>
   files (snd (delete_all_conversations plain_lines (after_hello\<lparr>write_fault := archive_not_encodable\<rparr>)
            True next_second)) (archive_filename next_second) = Some (Text []) \<and>
   fst (delete_all_conversations plain_lines (after_hello\<lparr>write_fault := log_locked\<rparr>) True next_second) =
     Inl (OSError ''[Errno 13] Permission denied'') \<and>
   files (snd (delete_all_conversations plain_lines (after_hello\<lparr>write_fault := log_disk_full\<rparr>)
            True next_second)) conversations_file = Some (Text [])"
proof -
  let ?A = "archive_filename next_second"
  let ?T = "Text (plain_lines (chat_display after_hello))"
  have n: "?A \<noteq> ''conversations.json''"
    by (simp add: archive_filename_def)
  have pair: "delete_all_conversations plain_lines x True next_second =
     (fst (delete_all_conversations plain_lines x True next_second),
      snd (delete_all_conversations plain_lines x True next_second))" for x
    by simp
  have a: "write_fault after_hello p c = None" for p c
    by (simp add: after_hello_eq first_run_def no_fault_def)
  have b: "write_fault (after_hello\<lparr>write_fault := archive_locked\<rparr>) ?A c =
             Some (OpenFails (OSError ''[Errno 30] Read-only file system''))" for c
    using n by (simp add: archive_locked_def)
  have b': "write_fault (after_hello\<lparr>write_fault := archive_not_encodable\<rparr>) ?A c =
             Some (WriteFails (UnicodeEncodeError ''codec can't encode character'') (Text []))" for c
    using n by (simp add: archive_not_encodable_def)
  have c: "write_fault (after_hello\<lparr>write_fault := log_locked\<rparr>) ?A c = None"
          "write_fault (after_hello\<lparr>write_fault := log_locked\<rparr>) conversations_file c =
             Some (OpenFails (OSError ''[Errno 13] Permission denied''))" for c
    using n by (simp_all add: log_locked_def conversations_file_def)
  have d: "write_fault (after_hello\<lparr>write_fault := log_disk_full\<rparr>) ?A c = None"
          "write_fault (after_hello\<lparr>write_fault := log_disk_full\<rparr>) conversations_file c =
             Some (WriteFails (OSError ''[Errno 28] No space left on device'') (Text []))" for c
    using n by (simp_all add: log_disk_full_def conversations_file_def)
  have cd: "chat_display (after_hello\<lparr>write_fault := w\<rparr>) = chat_display after_hello" for w
    by simp
  note t = delete_all_conversations_outcomes
  have 1: "fst (delete_all_conversations plain_lines after_hello True next_second) = Inr () \<and>
     files (snd (delete_all_conversations plain_lines after_hello True next_second)) ?A = Some ?T \<and>
     conversations (snd (delete_all_conversations plain_lines after_hello True next_second)) = [] \<and>
     load_conversations
       (first_run\<lparr>files := files (snd (delete_all_conversations plain_lines after_hello True next_second))\<rparr>)
       next_second =
     (Inr (), first_run
        \<lparr>files := files (snd (delete_all_conversations plain_lines after_hello True next_second)),
         conversations := []\<rparr>)"
    using t [OF pair [of after_hello], where later = next_second and r =
        "first_run\<lparr>files := files (snd (delete_all_conversations plain_lines after_hello True next_second))\<rparr>"]
      a by simp
  have 2: "delete_all_conversations plain_lines (after_hello\<lparr>write_fault := archive_locked\<rparr>) True
       next_second =
     (Inl (OSError ''[Errno 30] Read-only file system''), after_hello\<lparr>write_fault := archive_locked\<rparr>)"
    using t [OF pair [of "after_hello\<lparr>write_fault := archive_locked\<rparr>"],
        where e = "OSError ''[Errno 30] Read-only file system''"]
      b [of ?T] pair [of "after_hello\<lparr>write_fault := archive_locked\<rparr>"]
    by simp
  have 3: "files (snd (delete_all_conversations plain_lines
       (after_hello\<lparr>write_fault := archive_not_encodable\<rparr>) True next_second)) ?A = Some (Text [])"
    using t [OF pair [of "after_hello\<lparr>write_fault := archive_not_encodable\<rparr>"],
        where e = "UnicodeEncodeError ''codec can't encode character''" and left = "Text []"]
      b' [of ?T]
    by simp
  have 4: "fst (delete_all_conversations plain_lines (after_hello\<lparr>write_fault := log_locked\<rparr>) True
       next_second) = Inl (OSError ''[Errno 13] Permission denied'')"
    using t [OF pair [of "after_hello\<lparr>write_fault := log_locked\<rparr>"],
        where e = "OSError ''[Errno 13] Permission denied''"]
      c(1) [of ?T] c(2) [of "Json (JArr [])"]
    by simp
  have 5: "files (snd (delete_all_conversations plain_lines (after_hello\<lparr>write_fault := log_disk_full\<rparr>)
       True next_second)) conversations_file = Some (Text [])"
    using t [OF pair [of "after_hello\<lparr>write_fault := log_disk_full\<rparr>"],
        where e = "OSError ''[Errno 28] No space left on device''" and left = "Text []"]
      d(1) [of ?T] d(2) [of "Json (JArr [])"]
    by simp
  show ?thesis using 1 2 3 4 5 by simp
qed

text \<open>C3 as stated is all-or-nothing; with a log file that cannot be written the call
  fails, and yet the archive has appeared and the log in memory is gone.\<close>

theorem failed_reset_keeps_archive:
  "fst (delete_all_conversations plain_lines (after_hello\<lparr>write_fault := log_locked\<rparr>) True
          next_second) = Inl (OSError ''[Errno 13] Permission denied'') \<and>
   files (after_hello\<lparr>write_fault := log_locked\<rparr>) ''archived_conversation_20240517_123046.txt'' = None \<and>
   files (snd (delete_all_conversations plain_lines (after_hello\<lparr>write_fault := log_locked\<rparr>) True
          next_second)) ''archived_conversation_20240517_123046.txt'' \<noteq> None \<and>
   conversations (after_hello\<lparr>write_fault := log_locked\<rparr>) \<noteq> [] \<and>
   conversations (snd (delete_all_conversations plain_lines (after_hello\<lparr>write_fault := log_locked\<rparr>)
          True next_second)) = []"
  by (simp add: after_hello_eq delete_all_conversations_def write_file_def archive_filename_def
        conversations_file_def log_locked_def first_run_def no_files_def Let_def
        toString_compact_def next_second_def pad4_def pad2_def digit_def)

subsection \<open>Configuration\<close>

text \<open>
  C5 at a configuration whose \<^verbatim>\<open>selected_model\<close> is not one of the models offered:
  \<^verbatim>\<open>load_model_selection\<close> returns the stored name as it is, not the default, and
  the look-up of that name in \<^verbatim>\<open>setup_ui\<close> raises \<^verbatim>\<open>ValueError\<close>, so that no
  application object is built.
\<close>

theorem unlisted_model_stops_startup:
  "load_model_selection stale_config = Inr (JStr ''gemini-pro'') \<and>
   ''gemini-pro'' \<notin> set available_models \<and>
   init_app stale_config no_fault True noon = Inl (ValueError ''is not in list'')"
  by (simp add: load_model_selection_def load_font_size_def stale_config_def path_exists_def
        json_load_def config_file_def dict_get_def available_models_def init_app_def
        model_index_def Let_def)

text \<open>
  C6 at a configuration holding both fields: choosing another model rewrites the file
  with \<^verbatim>\<open>selected_model\<close> alone, so that the font size stored before (20) is gone
  and the next load gives the default 14; moving the slider writes nothing, and
  \<^verbatim>\<open>save_font_size\<close> itself raises on the empty path it opens.
\<close>

theorem model_change_drops_font_size:
  "load_font_size (files configured) = Inr (JNum 20) \<and>
   fst (update_selected_model configured ''gemini-1.5-pro'') = Inr () \<and>
   files (snd (update_selected_model configured ''gemini-1.5-pro'')) ''config.json'' =
     Some (Json (JObj [(''selected_model'', JStr ''gemini-1.5-pro'')])) \<and>
   load_font_size (files (snd (update_selected_model configured ''gemini-1.5-pro''))) =
     Inr (JNum 14) \<and>
   files (update_font_size configured 22) ''config.json'' = files configured ''config.json'' \<and>
   save_font_size configured 22 =
     (Inl (OSError ''[Errno 2] No such file or directory''), configured)"
  by (simp add: load_font_size_def configured_def saved_config_def path_exists_def
        json_load_def config_file_def dict_get_def update_selected_model_def
        save_model_selection_def write_file_def first_run_def no_fault_def
        update_font_size_def save_font_size_def)

subsection \<open>Reading the last reply\<close>

text \<open>
  C7: when a clip is playing, \<^verbatim>\<open>read_last_response\<close> stops the player and returns:
  no thread is started, the player keeps its source and nothing is written or shown.
  When no clip is playing and the log is empty, it shows the message "No response to
  read." of System and returns: no thread is started and the player is not touched.
\<close>

theorem read_last_response_toggle:
  "(is_audio_playing s \<longrightarrow>
      fst (read_last_response s now) = Inr () \<and>
      \<not> player_playing (snd (read_last_response s now)) \<and>
      \<not> is_audio_playing (snd (read_last_response s now)) \<and>
      player_source (snd (read_last_response s now)) = player_source s \<and>
      threads (snd (read_last_response s now)) = threads s \<and>
      files (snd (read_last_response s now)) = files s \<and>
      chat_display (snd (read_last_response s now)) = chat_display s) \<and>
   (\<not> is_audio_playing s \<and> conversations s = [] \<longrightarrow>
      fst (read_last_response s now) = Inr () \<and>
      chat_display (snd (read_last_response s now)) =
        chat_display s @ [Message ''System'' ''No response to read.'' (toString_dashed now)] \<and>
      threads (snd (read_last_response s now)) = threads s \<and>
      files (snd (read_last_response s now)) = files s \<and>
      player_playing (snd (read_last_response s now)) = player_playing s \<and>
      player_source (snd (read_last_response s now)) = player_source s)"
  by (simp add: read_last_response_def stop_audio_def on_audio_finished_def
        get_last_gemini_response_def display_message_def)

theorem read_last_response_toggle_witness:
  "is_audio_playing playing \<and>
   \<not> player_playing (snd (read_last_response playing next_second)) \<and>
   threads (snd (read_last_response playing next_second)) = [] \<and>
   \<not> is_audio_playing first_run \<and> conversations first_run = [] \<and>
   chat_display (snd (read_last_response first_run noon)) =
     [Line welcome_line, Message ''System'' ''No response to read.'' ''2024-05-17 12:30:45''] \<and>
   threads (snd (read_last_response first_run noon)) = []"
proof -
  have a: "is_audio_playing playing" "threads playing = []"
    by (simp_all add: playing_def after_hello_eq first_run_def)
  have b: "\<not> is_audio_playing first_run" "conversations first_run = []"
          "threads first_run = []" "chat_display first_run = [Line welcome_line]"
    by (simp_all add: first_run_def)
  have c: "toString_dashed noon = ''2024-05-17 12:30:45''"
    by (simp add: toString_dashed_def noon_def pad4_def pad2_def digit_def)
  show ?thesis
    using read_last_response_toggle [of playing next_second]
          read_last_response_toggle [of first_run noon] a b c
    by simp
qed

subsection \<open>Names of audio files\<close>











subsection \<open>The prompt\<close>

text \<open>
  C9, as the program has it: for every input that is not empty after trimming and every
  transcript, the prompt sent without context is the trimmed input, and the prompt sent
  with context is the prefix "Context for my prompt: ", the trimmed plain text of the
  chat widget and two newlines, followed by that trimmed input; the prefix is not empty.
\<close>

theorem send_message_context_prefix:
  "strip (message_input s) \<noteq> [] \<Longrightarrow>
   threads (send_message toPlainText (s\<lparr>context_checkbox := False\<rparr>) now) =
     threads s @ [ProcessMessage (strip (message_input s))] \<and>
   threads (send_message toPlainText (s\<lparr>context_checkbox := True\<rparr>) now) =
     threads s @ [ProcessMessage
       (context_prefix (strip (toPlainText (chat_display s))) @ strip (message_input s))] \<and>
   context_prefix (strip (toPlainText (chat_display s))) \<noteq> []"
  by (simp add: send_message_def display_message_def context_prefix_def Let_def)

theorem send_message_context_prefix_witness:
  "strip (message_input (after_hello\<lparr>message_input := '' How are you? ''\<rparr>)) \<noteq> [] \<and>
   threads (send_message plain_lines
      (after_hello\<lparr>message_input := '' How are you? '', context_checkbox := False\<rparr>) noon) =
     [ProcessMessage ''How are you?''] \<and>
   threads (send_message plain_lines
      (after_hello\<lparr>message_input := '' How are you? '', context_checkbox := True\<rparr>) noon) =
     [ProcessMessage (context_prefix (strip (plain_lines (chat_display after_hello))) @
        ''How are you?'')]"
proof -
  have a: "strip '' How are you? '' = ''How are you?''"
    by (simp add: strip_def isspace_def)
  have b: "threads after_hello = []" "chat_display (after_hello\<lparr>message_input := '' How are you? ''\<rparr>) = chat_display after_hello"
    by (simp_all add: after_hello_eq first_run_def)
  show ?thesis
    using send_message_context_prefix
      [of "after_hello\<lparr>message_input := '' How are you? ''\<rparr>" plain_lines noon] a b
    by simp
qed

text \<open>C9 as stated ranges over every non-empty input: for an input of one space no
  prompt is built at all, and for an input with a leading space the prompt ends with
  the trimmed input, not with the input as typed.\<close>

theorem blank_or_padded_input_prompt:
  "threads (send_message plain_lines
      (first_run\<lparr>message_input := '' '', context_checkbox := True\<rparr>) noon) = [] \<and>
   threads (send_message plain_lines
      (first_run\<lparr>message_input := '' hi'', context_checkbox := True\<rparr>) noon) =
     [ProcessMessage (''Context for my prompt: '' @ strip (plain_lines [Line welcome_line]) @
        [CHR 0x0A, CHR 0x0A] @ ''hi'')]"
  by (simp add: send_message_def display_message_def first_run_def strip_def [of "'' ''"]
        strip_def [of "'' hi''"] isspace_def context_prefix_def Let_def)

end
